theory Spec2Isabelle
  imports Main
begin

section \<open>JavaScript values\<close>

text \<open>
  A JavaScript string is a \<^typ>\<open>string\<close>; a variable that holds a string or \<open>null\<close> is a
  \<^typ>\<open>string option\<close>. JavaScript tests such a value for truthiness: \<open>null\<close> and the
  empty string are falsy, every other string is truthy.
\<close>

definition falsy :: "string option \<Rightarrow> bool" where
  "falsy v = (case v of None \<Rightarrow> True | Some s \<Rightarrow> s = [])"

text \<open>
  \<open>s.slice(0, n)\<close> keeps the first \<open>n\<close> characters (all of \<open>s\<close> when it is shorter);
  \<open>s.slice(-n)\<close> keeps the last \<open>n\<close> characters (all of \<open>s\<close> when it is shorter): the
  start index is \<open>max (length s - n) 0\<close>, which is what the subtraction on \<^typ>\<open>nat\<close> gives.
\<close>

definition slice_first :: "nat \<Rightarrow> string \<Rightarrow> string" where
  "slice_first n s = take n s"

definition slice_last :: "nat \<Rightarrow> string \<Rightarrow> string" where
  "slice_last n s = drop (length s - n) s"

text \<open>
  \<open>toLowerCase\<close> on the ASCII letters: \<open>A\<close> .. \<open>Z\<close> move to \<open>a\<close> .. \<open>z\<close>, every other
  character stays. Account identifiers are hexadecimal, so this is the part of the
  JavaScript function the code relies on.
\<close>

definition toLowerCase_char :: "char \<Rightarrow> char" where
  "toLowerCase_char c =
     (case map_of (zip ''ABCDEFGHIJKLMNOPQRSTUVWXYZ'' ''abcdefghijklmnopqrstuvwxyz'') c of
        Some l \<Rightarrow> l
      | None \<Rightarrow> c)"

definition toLowerCase :: "string \<Rightarrow> string" where
  "toLowerCase s = map toLowerCase_char s"

text \<open>
  An error object: \<open>code\<close> is \<open>undefined\<close> (\<open>None\<close>) for an \<open>Error\<close> made by
  \<open>new Error(message)\<close> and for a \<open>TypeError\<close>; wallet providers set it (4001, 4902, -32002).
\<close>

datatype js_error = Error (err_code: "int option") (err_message: string)

text \<open>The result of an awaited promise: \<open>Inl\<close> when it rejects, \<open>Inr\<close> when it resolves.\<close>

type_synonym 'a reply = "js_error + 'a"

text \<open>The values a chain of \<open>&&\<close> over booleans and strings can return.\<close>

datatype jsval = JBool bool | JNull | JString string

fun truthy :: "jsval \<Rightarrow> bool" where
  "truthy (JBool b) = b"
| "truthy JNull = False"
| "truthy (JString s) = (s \<noteq> [])"

section \<open>Address formatting\<close>

text \<open>
  \<open>MandalaApp.formatAddress\<close> (legacy/web/static/js/app.js):
  \<^verbatim>\<open>if (!address || address.length < 10) return address;\<close>
  \<^verbatim>\<open>return `${address.slice(0, 6)}...${address.slice(-4)}`;\<close>
\<close>

definition MandalaApp_formatAddress :: "string option \<Rightarrow> string option" where
  "MandalaApp_formatAddress address =
     (case address of
        None \<Rightarrow> address
      | Some s \<Rightarrow>
          if falsy address \<or> length s < 10 then address
          else Some (slice_first 6 s @ ''...'' @ slice_last 4 s))"

text \<open>
  \<open>WalletConnection.formatAddress\<close> (frontend/js/web3/wallet-connection.js):
  \<^verbatim>\<open>if (!address) return '';\<close>
  \<^verbatim>\<open>return `${address.slice(0, 6)}...${address.slice(-4)}`;\<close>
  It has no length test, and answers the empty string for \<open>null\<close>.
\<close>

definition WalletConnection_formatAddress :: "string option \<Rightarrow> string" where
  "WalletConnection_formatAddress address =
     (case address of
        None \<Rightarrow> []
      | Some s \<Rightarrow>
          if falsy address then []
          else slice_first 6 s @ ''...'' @ slice_last 4 s)"

section \<open>Observable effects\<close>

text \<open>
  What an operation does to the world outside the two objects, in the order in which it
  does it: requests to the wallet provider, HTTP requests, toasts, console output, timers.
  Rendering (\<open>updateUI\<close>, the confirmation modal) is recorded as one opaque effect each.
\<close>

datatype effect =
    Request string                    \<comment> \<open>\<open>provider.request({ method })\<close>\<close>
  | Fetch string                      \<comment> \<open>\<open>fetch(url)\<close>\<close>
  | Toast string string               \<comment> \<open>\<open>MandalaApp.showToast(message, type)\<close>\<close>
  | ConsoleError string               \<comment> \<open>\<open>console.error(label, error)\<close>\<close>
  | WindowOpen string                 \<comment> \<open>\<open>window.open(url, '_blank')\<close>\<close>
  | UpdateUI                          \<comment> \<open>\<open>this.updateUI()\<close>\<close>
  | OnAccountChanged string           \<comment> \<open>\<open>this.onAccountChanged(account)\<close>\<close>
  | Reload                            \<comment> \<open>\<open>window.location.reload()\<close>\<close>
  | ShowMintConfirmation              \<comment> \<open>the modal of \<open>showMintConfirmation\<close>\<close>
  | SetTimeout_checkStatus            \<comment> \<open>\<open>setTimeout(checkStatus, 5000)\<close>\<close>
  | OnMintSuccess "nat option" string \<comment> \<open>\<open>this.onMintSuccess(data.token_id, txHash)\<close>\<close>
  | UnhandledRejection js_error       \<comment> \<open>a promise nobody awaits rejects\<close>

section \<open>WalletConnection\<close>

text \<open>
  The fields of the class. \<open>provider\<close> is either \<open>null\<close> or the reference to
  \<open>window.ethereum\<close> that \<open>init\<close> stored; no other value is ever assigned. The field
  \<open>web3\<close> is only ever \<open>null\<close> and is left out.
\<close>

datatype provider_ref = WindowEthereum

record wallet =
  isConnected :: bool
  currentAccount :: "string option"
  provider :: "provider_ref option"
  chainId :: "string option"

text \<open>The constructor's field values, before \<open>init\<close> runs.\<close>

definition new_wallet :: wallet where
  "new_wallet = \<lparr>isConnected = False, currentAccount = None, provider = None, chainId = None\<rparr>"

definition targetNetwork_chainId :: string where
  "targetNetwork_chainId = ''0x13882''"

text \<open>
  \<open>this.provider.request({ method })\<close>: when the stored provider is \<open>null\<close> the property
  access throws a \<open>TypeError\<close> before anything reaches the wallet; otherwise the host's
  provider answers (the answer is an input of the model). The text of the \<open>TypeError\<close> is
  the JavaScript engine's; its \<open>code\<close> is \<open>undefined\<close>.
\<close>

definition TypeError_null :: js_error where
  "TypeError_null = Error None ''Cannot read properties of null (reading request)''"

definition provider_request :: "wallet \<Rightarrow> string \<Rightarrow> 'a reply \<Rightarrow> 'a reply \<times> effect list" where
  "provider_request w method answer =
     (case provider w of
        None \<Rightarrow> (Inl TypeError_null, [])
      | Some _ \<Rightarrow> (answer, [Request method]))"

definition disconnectWallet :: "wallet \<Rightarrow> wallet \<times> effect list" where
  "disconnectWallet w =
     (w\<lparr>isConnected := False, currentAccount := None, provider := None, chainId := None\<rparr>,
      [UpdateUI, Toast ''Wallet disconnected'' ''info''])"

text \<open>
  \<open>handleAccountsChanged(accounts)\<close>. The account and the flag are assigned before the
  chain id is awaited, so they stay assigned when that request throws.
\<close>

definition handleAccountsChanged ::
  "string reply \<Rightarrow> string list \<Rightarrow> wallet \<Rightarrow> unit reply \<times> wallet \<times> effect list" where
  "handleAccountsChanged chainId_answer accounts w =
     (case accounts of
        [] \<Rightarrow> (Inr (), disconnectWallet w)
      | a # _ \<Rightarrow>
          (let w1 = w\<lparr>currentAccount := Some a, isConnected := True\<rparr> in
           case provider_request w1 ''eth_chainId'' chainId_answer of
             (Inl e, fx) \<Rightarrow> (Inl e, w1, fx)
           | (Inr c, fx) \<Rightarrow>
               (Inr (), w1\<lparr>chainId := Some c\<rparr>, fx @ [UpdateUI, OnAccountChanged a])))"

definition handleChainChanged :: "string \<Rightarrow> wallet \<Rightarrow> wallet \<times> effect list" where
  "handleChainChanged c w = (w\<lparr>chainId := Some c\<rparr>, [UpdateUI, Reload])"

definition handleDisconnect :: "wallet \<Rightarrow> wallet \<times> effect list" where
  "handleDisconnect w = disconnectWallet w"

text \<open>
  \<open>init()\<close>, which the constructor calls once: the only place where \<open>provider\<close> is
  assigned a provider. Nobody awaits it, so a request that rejects is an unhandled
  rejection and the rest of \<open>init\<close> is skipped. (Registering the three listeners on the
  provider is not an effect of its own: the events they receive are inputs of the model.)
\<close>

definition init ::
  "bool \<Rightarrow> string list reply \<Rightarrow> string reply \<Rightarrow> wallet \<Rightarrow> wallet \<times> effect list" where
  "init window_ethereum_defined accounts_answer chainId_answer w =
     (if window_ethereum_defined then
        (let w0 = w\<lparr>provider := Some WindowEthereum\<rparr> in
         case accounts_answer of
           Inl e \<Rightarrow> (w0, [Request ''eth_accounts'', UnhandledRejection e])
         | Inr accounts \<Rightarrow>
             if length accounts > 0 then
               (case handleAccountsChanged chainId_answer accounts w0 of
                  (Inl e, w1, fx) \<Rightarrow> (w1, Request ''eth_accounts'' # fx @ [UnhandledRejection e])
                | (Inr _, w1, fx) \<Rightarrow> (w1, Request ''eth_accounts'' # fx @ [UpdateUI]))
             else (w0, [Request ''eth_accounts'', UpdateUI]))
      else (w, [UpdateUI]))"

text \<open>
  \<open>ensureCorrectNetwork()\<close>. The host's answers to the three requests it can make are
  inputs. The chain id request is outside every \<open>try\<close>, so its rejection leaves the
  function; the switch and add requests are caught.
\<close>

record network_answers =
  chainId_answer :: "string reply"
  switch_answer :: "unit reply"
  add_answer :: "unit reply"

definition ensureCorrectNetwork :: "network_answers \<Rightarrow> wallet \<Rightarrow> bool reply \<times> effect list" where
  "ensureCorrectNetwork ans w =
     (case provider w of
        None \<Rightarrow> (Inr False, [])
      | Some _ \<Rightarrow>
          (case chainId_answer ans of
             Inl e \<Rightarrow> (Inl e, [Request ''eth_chainId''])
           | Inr currentChainId \<Rightarrow>
               if currentChainId \<noteq> targetNetwork_chainId then
                 (case switch_answer ans of
                    Inr _ \<Rightarrow>
                      (Inr True, [Request ''eth_chainId'', Request ''wallet_switchEthereumChain''])
                  | Inl switchError \<Rightarrow>
                      if err_code switchError = Some 4902 then
                        (case add_answer ans of
                           Inr _ \<Rightarrow>
                             (Inr True,
                              [Request ''eth_chainId'', Request ''wallet_switchEthereumChain'',
                               Request ''wallet_addEthereumChain''])
                         | Inl addError \<Rightarrow>
                             (Inr False,
                              [Request ''eth_chainId'', Request ''wallet_switchEthereumChain'',
                               Request ''wallet_addEthereumChain'',
                               ConsoleError ''Error adding network:'',
                               Toast ''Failed to add Polygon Amoy network. Please add it manually.''
                                 ''error'']))
                      else
                        (Inr False,
                         [Request ''eth_chainId'', Request ''wallet_switchEthereumChain'',
                          ConsoleError ''Error switching network:'',
                          Toast ''Please switch to Polygon Amoy testnet manually.'' ''error'']))
               else (Inr True, [Request ''eth_chainId''])))"

definition isOnCorrectNetwork :: "wallet \<Rightarrow> bool" where
  "isOnCorrectNetwork w = (chainId w = Some targetNetwork_chainId)"

text \<open>\<open>haystack.includes(needle)\<close>: the needle occurs as a contiguous part.\<close>

fun str_includes :: "string \<Rightarrow> string \<Rightarrow> bool" where
  "str_includes [] needle = (needle = [])"
| "str_includes (c # cs) needle = (take (length needle) (c # cs) = needle \<or> str_includes cs needle)"

definition parseWalletError :: "js_error \<Rightarrow> string" where
  "parseWalletError error =
     (if err_code error = Some 4001 then ''Connection rejected by user''
      else if err_code error = Some (- 32002) then ''Connection request already pending''
      else if str_includes (err_message error) ''User rejected'' then ''Connection rejected by user''
      else ''Connection failed: '' @ err_message error)"

text \<open>
  \<open>connectWallet()\<close>. \<open>window_ethereum\<close> says whether the host environment has a provider
  (\<open>typeof window.ethereum !== 'undefined'\<close>). The requests go to the \<^emph>\<open>stored\<close> provider
  \<open>this.provider\<close>. Everything after the first test runs inside one \<open>try\<close>, whose handler
  shows the parsed error and returns \<open>false\<close>.
\<close>

record connect_answers =
  window_ethereum :: bool
  requestAccounts_answer :: "string list reply"
  accounts_chainId_answer :: "string reply"
  network :: network_answers

definition connect_catch :: "js_error \<Rightarrow> wallet \<Rightarrow> effect list \<Rightarrow> bool \<times> wallet \<times> effect list" where
  "connect_catch e w fx =
     (False, w, fx @ [ConsoleError ''Error connecting wallet:'', Toast (parseWalletError e) ''error''])"

definition connectWallet :: "connect_answers \<Rightarrow> wallet \<Rightarrow> bool \<times> wallet \<times> effect list" where
  "connectWallet ans w =
     (if \<not> window_ethereum ans then
        (False, w,
         [Toast ''MetaMask is not installed. Please install MetaMask to continue.'' ''error'',
          WindowOpen ''https://metamask.io/download.html''])
      else
        (case provider_request w ''eth_requestAccounts'' (requestAccounts_answer ans) of
           (Inl e, fx) \<Rightarrow> connect_catch e w fx
         | (Inr accounts, fx) \<Rightarrow>
             if length accounts > 0 then
               (case handleAccountsChanged (accounts_chainId_answer ans) accounts w of
                  (Inl e, w1, fx1) \<Rightarrow> connect_catch e w1 (fx @ fx1)
                | (Inr _, w1, fx1) \<Rightarrow>
                    (case ensureCorrectNetwork (network ans) w1 of
                       (Inl e, fx2) \<Rightarrow> connect_catch e w1 (fx @ fx1 @ fx2)
                     | (Inr _, fx2) \<Rightarrow>
                         (True, w1,
                          fx @ fx1 @ fx2 @ [Toast ''Wallet connected successfully!'' ''success''])))
             else (False, w, fx)))"

definition getConnectedAccount :: "wallet \<Rightarrow> string option" where
  "getConnectedAccount w = currentAccount w"

definition isWalletConnected :: "wallet \<Rightarrow> bool" where
  "isWalletConnected w = isConnected w"

text \<open>
  \<open>canUserMint(traderAddress)\<close> is a chain of \<open>&&\<close>: it returns the first falsy operand,
  or the last operand when all before it are truthy.
  \<^verbatim>\<open>return this.isConnected && this.currentAccount &&\<close>
  \<^verbatim>\<open>  this.currentAccount.toLowerCase() === traderAddress.toLowerCase() &&\<close>
  \<^verbatim>\<open>  this.isOnCorrectNetwork();\<close>
\<close>

definition canUserMint :: "wallet \<Rightarrow> string \<Rightarrow> jsval" where
  "canUserMint w traderAddress =
     (if \<not> isConnected w then JBool False
      else case currentAccount w of
        None \<Rightarrow> JNull
      | Some a \<Rightarrow>
          if a = [] then JString a
          else if toLowerCase a \<noteq> toLowerCase traderAddress then JBool False
          else JBool (isOnCorrectNetwork w))"

text \<open>
  The life of one \<open>WalletConnection\<close> object after its construction: the calls made on it
  and the events the provider pushes to it, each with the answers the host gives during
  that call. \<open>init\<close> is called by the constructor only and is not among them. (The
  reload that \<open>handleChainChanged\<close> asks for ends the page and the object with it; the
  model lets the object live on, which only adds states.)
\<close>

datatype session_event =
    ConnectWallet connect_answers
  | DisconnectWallet
  | AccountsChanged "string list" "string reply"
  | ChainChanged string
  | ProviderDisconnect
  | EnsureCorrectNetwork network_answers

fun session_step :: "session_event \<Rightarrow> wallet \<Rightarrow> wallet" where
  "session_step (ConnectWallet ans) w = fst (snd (connectWallet ans w))"
| "session_step DisconnectWallet w = fst (disconnectWallet w)"
| "session_step (AccountsChanged accounts ans) w = fst (snd (handleAccountsChanged ans accounts w))"
| "session_step (ChainChanged c) w = fst (handleChainChanged c w)"
| "session_step ProviderDisconnect w = fst (handleDisconnect w)"
| "session_step (EnsureCorrectNetwork ans) w = w"

fun session_run :: "session_event list \<Rightarrow> wallet \<Rightarrow> wallet" where
  "session_run [] w = w"
| "session_run (ev # evs) w = session_run evs (session_step ev w)"

section \<open>NFTMinting\<close>

text \<open>
  The mint button is the DOM element \<open>#mint-nft-btn\<close> (\<open>None\<close> when the page has none).
  Its text is one of six fixed captions; the classes \<open>minted\<close> and \<open>loading\<close> are flags.
  The tooltip and the \<open>display\<close> style are left out.
\<close>

datatype caption =
  Already_Minted | Connect_Wallet_to_Mint | Can_Only_Mint_Your_Own | Mint_NFT | Minting | Minted

record button =
  textContent :: caption
  disabled :: bool
  class_minted :: bool
  class_loading :: bool

text \<open>
  The state of the \<open>NFTMinting\<close> object that its methods read and write, with the button
  they render into. (\<open>contractABI\<close> and \<open>contract\<close> are written once and never read.)
\<close>

record minting =
  contractAddress :: "string option"
  isMinting :: bool
  mintButton :: "button option"

text \<open>The JSON of \<open>GET /nft/mint-status/{address}\<close>.\<close>

record mint_status =
  has_minted :: bool
  token_id :: "nat option"
  estimated_cost :: "string option"

text \<open>
  \<open>updateMintButton(traderAddress, mintStatus)\<close>, for a page whose
  \<open>window.walletConnection\<close> exists. The four cases are tested in this order.
\<close>

definition updateMintButton :: "wallet \<Rightarrow> string \<Rightarrow> mint_status \<Rightarrow> minting \<Rightarrow> minting" where
  "updateMintButton w traderAddress mintStatus m =
     (case mintButton m of
        None \<Rightarrow> m
      | Some b \<Rightarrow>
          (let canMint = canUserMint w traderAddress;
               hasAlreadyMinted = has_minted mintStatus
           in if hasAlreadyMinted then
                m\<lparr>mintButton := Some (b\<lparr>textContent := Already_Minted, disabled := True,
                                          class_minted := True\<rparr>)\<rparr>
              else if \<not> isWalletConnected w then
                m\<lparr>mintButton := Some (b\<lparr>textContent := Connect_Wallet_to_Mint, disabled := True,
                                          class_minted := False\<rparr>)\<rparr>
              else if \<not> truthy canMint then
                m\<lparr>mintButton := Some (b\<lparr>textContent := Can_Only_Mint_Your_Own, disabled := True,
                                          class_minted := False\<rparr>)\<rparr>
              else
                m\<lparr>mintButton := Some (b\<lparr>textContent := Mint_NFT, disabled := False,
                                          class_minted := False\<rparr>)\<rparr>))"

text \<open>
  \<open>checkMintStatus(traderAddress)\<close>: one fetch, then \<open>updateMintButton\<close> with the fetched
  status; a failed fetch is logged and changes nothing. (The URL is written without the
  configured base URL of the API.)
\<close>

definition checkMintStatus ::
  "mint_status reply \<Rightarrow> wallet \<Rightarrow> string \<Rightarrow> minting \<Rightarrow> minting \<times> effect list" where
  "checkMintStatus status_answer w traderAddress m =
     (if falsy (contractAddress m) \<or> traderAddress = [] then (m, [])
      else case status_answer of
        Inl e \<Rightarrow> (m, [Fetch (''/nft/mint-status/'' @ traderAddress),
                       ConsoleError ''Error checking mint status:''])
      | Inr data \<Rightarrow> (updateMintButton w traderAddress data m,
                      [Fetch (''/nft/mint-status/'' @ traderAddress)]))"

definition setMintingState :: "bool \<Rightarrow> minting \<Rightarrow> minting" where
  "setMintingState st m =
     (case mintButton m of
        None \<Rightarrow> m
      | Some b \<Rightarrow>
          if st then
            m\<lparr>mintButton := Some (b\<lparr>textContent := Minting, disabled := True, class_loading := True\<rparr>)\<rparr>
          else m\<lparr>mintButton := Some (b\<lparr>class_loading := False\<rparr>)\<rparr>)"

text \<open>The button update of \<open>onMintSuccess\<close>.\<close>

definition onMintSuccess :: "minting \<Rightarrow> minting" where
  "onMintSuccess m =
     (case mintButton m of
        None \<Rightarrow> m
      | Some b \<Rightarrow>
          m\<lparr>mintButton := Some (b\<lparr>textContent := Minted, disabled := True, class_minted := True\<rparr>)\<rparr>)"

subsection \<open>Polling for the transaction status\<close>

text \<open>
  What one fetch of \<open>POST /api/nft/transaction-status\<close> gives: \<open>FetchFailed\<close> when
  \<open>fetch\<close> or \<open>response.json()\<close> rejects, otherwise the fields \<open>status\<close>, \<open>token_id\<close>
  and \<open>error\<close> of the JSON. (A missing \<open>status\<close> behaves like any string other than the
  three the code tests for.)
\<close>

datatype status_reply =
    FetchFailed js_error
  | StatusData string "nat option" "string option"

fun status_of :: "status_reply \<Rightarrow> string option" where
  "status_of (FetchFailed e) = None"
| "status_of (StatusData status tok err) = Some status"

definition maxAttempts :: nat where
  "maxAttempts = 60"

definition status_url :: string where
  "status_url = ''/api/nft/transaction-status''"

text \<open>\<open>v || d\<close> for a string or \<open>undefined\<close> on the left.\<close>

definition or_default :: "string option \<Rightarrow> string \<Rightarrow> string" where
  "or_default v d = (case v of None \<Rightarrow> d | Some s \<Rightarrow> if s = [] then d else s)"

text \<open>
  The \<open>try\<close> block of \<open>checkStatus\<close>, after \<open>attempts++\<close>: it returns after the success
  path, returns after re-arming the timer, or throws.
\<close>

datatype try_result = Return_success "nat option" | Return_rearmed | Throw js_error

definition checkStatus_try :: "nat \<Rightarrow> status_reply \<Rightarrow> try_result" where
  "checkStatus_try attempts r =
     (case r of
        FetchFailed e \<Rightarrow> Throw e
      | StatusData status tok err \<Rightarrow>
          if status = ''confirmed'' then Return_success tok
          else if status = ''failed'' then Throw (Error None (or_default err ''Transaction failed''))
          else if status = ''pending'' \<and> attempts < maxAttempts then Return_rearmed
          else Throw (Error None ''Transaction timeout''))"

text \<open>
  One invocation of \<open>checkStatus\<close>, given the value of \<open>attempts\<close> before it and what the
  status endpoint gives. It increments \<open>attempts\<close>, runs the \<open>try\<close> block, and the
  \<open>catch\<close> clause re-arms the timer for \<^emph>\<open>every\<close> thrown error while attempts remain.
\<close>

datatype attempt_end = Succeeded "nat option" | Rearmed | Rejected js_error

definition checkStatus :: "nat \<Rightarrow> status_reply \<Rightarrow> nat \<times> attempt_end" where
  "checkStatus attempts0 r =
     (let attempts = attempts0 + 1 in
      case checkStatus_try attempts r of
        Return_success tok \<Rightarrow> (attempts, Succeeded tok)
      | Return_rearmed \<Rightarrow> (attempts, Rearmed)
      | Throw error \<Rightarrow>
          if attempts < maxAttempts then (attempts, Rearmed) else (attempts, Rejected error))"

text \<open>
  The effects of one invocation that does not reject: the fetch, then the success toast and
  \<open>onMintSuccess\<close>, or the timer.
\<close>

definition attempt_effects :: "string \<Rightarrow> attempt_end \<Rightarrow> effect list" where
  "attempt_effects txHash r =
     Fetch status_url #
     (case r of
        Succeeded tok \<Rightarrow> [Toast ''NFT minted successfully!'' ''success'', OnMintSuccess tok txHash]
      | Rearmed \<Rightarrow> [SetTimeout_checkStatus]
      | Rejected e \<Rightarrow> [])"

text \<open>
  The chain of invocations: \<open>endpoint k\<close> is what the \<open>k\<close>-th fetch gives (\<open>k\<close> counts
  from 1), and a timer that was armed fires. The first invocation is awaited by
  \<open>waitForTransactionConfirmation\<close> inside its \<open>try\<close> (\<open>awaited\<close>), so its rejection is
  caught and shown there; the later ones are started by the timer and nobody awaits them.
  The result is the final value of \<open>attempts\<close>, how the last invocation ended, and the
  effects in order.
\<close>

function checkStatus_chain ::
  "string \<Rightarrow> (nat \<Rightarrow> status_reply) \<Rightarrow> bool \<Rightarrow> nat \<Rightarrow> nat \<times> attempt_end \<times> effect list" where
  "checkStatus_chain txHash endpoint awaited attempts0 =
     (let (attempts, r) = checkStatus attempts0 (endpoint (attempts0 + 1)) in
      if r = Rearmed then
        (let (n, r', fx) = checkStatus_chain txHash endpoint False (attempts0 + 1)
         in (n, r', attempt_effects txHash r @ fx))
      else
        (attempts, r,
         attempt_effects txHash r @
         (case r of
            Rejected error \<Rightarrow>
              if awaited then
                [ConsoleError ''Transaction confirmation error:'',
                 Toast (''Transaction may have failed: '' @ err_message error) ''error'']
              else [UnhandledRejection error]
          | _ \<Rightarrow> [])))"
  by pat_completeness auto

termination checkStatus_chain
proof (relation "measure (\<lambda>(t, e, aw, a). maxAttempts - a)")
  show "wf (measure (\<lambda>(t, e, aw, a). maxAttempts - a))" by simp
next
  fix txHash :: string and endpoint awaited attempts0 x attempts r
  assume "x = checkStatus attempts0 (endpoint (attempts0 + 1))" "(attempts, r) = x" "r = Rearmed"
  then have "checkStatus attempts0 (endpoint (attempts0 + 1)) = (attempts, Rearmed)" by simp
  then have "attempts0 + 1 < maxAttempts"
    by (auto simp: checkStatus_def checkStatus_try_def Let_def
          split: try_result.splits status_reply.splits if_splits)
  then show "((txHash, endpoint, False, attempts0 + 1), txHash, endpoint, awaited, attempts0)
       \<in> measure (\<lambda>(t, e, aw, a). maxAttempts - a)" by simp
qed

text \<open>
  \<open>waitForTransactionConfirmation(txHash, traderAddress)\<close>: \<open>attempts\<close> starts at 0 and
  the first \<open>checkStatus()\<close> is awaited. The trader address only travels in the request
  body.
\<close>

definition waitForTransactionConfirmation ::
  "string \<Rightarrow> string \<Rightarrow> (nat \<Rightarrow> status_reply) \<Rightarrow> nat \<times> attempt_end \<times> effect list" where
  "waitForTransactionConfirmation txHash traderAddress endpoint =
     checkStatus_chain txHash endpoint True 0"

subsection \<open>The mint workflow\<close>

text \<open>
  The JSON of \<open>POST /api/nft/prepare-mint\<close>; the transaction is an opaque payload, the gas
  estimate is only displayed and is left out.
\<close>

record prepare_data =
  success :: bool
  prepare_error :: "string option"
  transaction :: string

text \<open>
  What the environment answers during one \<open>mintNFT\<close> call: the prepare request (\<open>Inl\<close>
  when \<open>fetch\<close> or \<open>response.json()\<close> rejects), the user's choice in the confirmation
  modal, whether \<open>window.ethereum\<close> exists, the provider's answers to \<open>eth_accounts\<close> and
  \<open>eth_sendTransaction\<close> (a transaction hash, \<open>None\<close> for \<open>null\<close>), and the status
  endpoint.
\<close>

record mint_answers =
  prepare_answer :: "prepare_data reply"
  confirm_answer :: bool
  host_ethereum :: bool
  eth_accounts_answer :: "string list reply"
  sendTransaction_answer :: "string option reply"
  status_endpoint :: "nat \<Rightarrow> status_reply"

definition prepare_url :: string where
  "prepare_url = ''/api/nft/prepare-mint''"

text \<open>
  \<open>executeTransaction(transactionData)\<close> talks to \<open>window.ethereum\<close> directly. Every error
  thrown inside its \<open>try\<close>, its own \<open>No wallet connected\<close> included, is rethrown by the
  \<open>catch\<close> clause under a new message.
\<close>

definition executeTransaction_catch :: "js_error \<Rightarrow> js_error" where
  "executeTransaction_catch error =
     (if err_code error = Some 4001 then Error None ''Transaction rejected by user''
      else Error None (''Transaction failed: '' @ err_message error))"

definition TypeError_undefined :: js_error where
  "TypeError_undefined = Error None ''Cannot read properties of undefined (reading request)''"

definition executeTransaction :: "mint_answers \<Rightarrow> string option reply \<times> effect list" where
  "executeTransaction ans =
     (if \<not> host_ethereum ans then (Inl (executeTransaction_catch TypeError_undefined), [])
      else case eth_accounts_answer ans of
        Inl e \<Rightarrow> (Inl (executeTransaction_catch e), [Request ''eth_accounts''])
      | Inr accounts \<Rightarrow>
          if length accounts = 0 then
            (Inl (executeTransaction_catch (Error None ''No wallet connected'')),
             [Request ''eth_accounts''])
          else
            (case sendTransaction_answer ans of
               Inl e \<Rightarrow>
                 (Inl (executeTransaction_catch e),
                  [Request ''eth_accounts'', Request ''eth_sendTransaction''])
             | Inr txHash \<Rightarrow>
                 (Inr txHash, [Request ''eth_accounts'', Request ''eth_sendTransaction''])))"

text \<open>
  The \<open>try\<close> block of \<open>mintNFT\<close>: the error it throws if any, the state, the effects.
  The polling does not throw; when it ends in success \<open>onMintSuccess\<close> has updated the
  button.
\<close>

definition mintNFT_try ::
  "mint_answers \<Rightarrow> string \<Rightarrow> minting \<Rightarrow> js_error option \<times> minting \<times> effect list" where
  "mintNFT_try ans traderAddress m =
     (case prepare_answer ans of
        Inl e \<Rightarrow> (Some e, m, [Fetch prepare_url])
      | Inr data \<Rightarrow>
          if \<not> success data then
            (Some (Error None (or_default (prepare_error data)
                                 ''Failed to prepare minting transaction'')),
             m, [Fetch prepare_url])
          else if \<not> confirm_answer ans then
            (None, (setMintingState False m)\<lparr>isMinting := False\<rparr>,
             [Fetch prepare_url, ShowMintConfirmation])
          else
            (case executeTransaction ans of
               (Inl e, fx) \<Rightarrow> (Some e, m, [Fetch prepare_url, ShowMintConfirmation] @ fx)
             | (Inr txHash, fx) \<Rightarrow>
                 (case txHash of
                    None \<Rightarrow> (None, m, [Fetch prepare_url, ShowMintConfirmation] @ fx)
                  | Some h \<Rightarrow>
                      if h = [] then (None, m, [Fetch prepare_url, ShowMintConfirmation] @ fx)
                      else
                        (case waitForTransactionConfirmation h traderAddress (status_endpoint ans) of
                           (n, r, pfx) \<Rightarrow>
                             (None,
                              (case r of Succeeded tok \<Rightarrow> onMintSuccess m | _ \<Rightarrow> m),
                              [Fetch prepare_url, ShowMintConfirmation] @ fx @
                              [Toast ''Transaction submitted! Waiting for confirmation...'' ''info'']
                              @ pfx)))))"

text \<open>
  \<open>mintNFT(traderAddress)\<close>, with \<open>w\<close> the state of \<open>window.walletConnection\<close>. The three
  guards return before anything is written. After them \<open>isMinting\<close> is set, the \<open>try\<close>
  block runs, the \<open>catch\<close> clause shows the error, and the \<open>finally\<close> clause clears
  \<open>isMinting\<close>. The result is the state once the call and its timers are over, and the
  effects in order. (The call itself settles when the first \<open>checkStatus\<close> returns: the
  \<open>finally\<close> clause runs then, and the later attempts run from the timer.)
\<close>

definition mintNFT ::
  "mint_answers \<Rightarrow> wallet \<Rightarrow> string \<Rightarrow> minting \<Rightarrow> minting \<times> effect list" where
  "mintNFT ans w traderAddress m =
     (if isMinting m then (m, [])
      else if \<not> isWalletConnected w then
        (m, [Toast ''Please connect your wallet first'' ''error''])
      else if \<not> truthy (canUserMint w traderAddress) then
        (m, [Toast ''You can only mint NFTs for your own wallet address'' ''error''])
      else
        (case mintNFT_try ans traderAddress (setMintingState True (m\<lparr>isMinting := True\<rparr>)) of
           (thrown, m1, fx) \<Rightarrow>
             ((setMintingState False m1)\<lparr>isMinting := False\<rparr>,
              fx @
              (case thrown of
                 None \<Rightarrow> []
               | Some error \<Rightarrow>
                   [ConsoleError ''Minting error:'',
                    Toast (or_default (Some (err_message error)) ''Minting failed'') ''error'']))))"

section \<open>Example inputs\<close>

definition example_account :: string where
  "example_account = ''0x1234567890abcdef1234567890abcdef12345678''"

text \<open>A wallet connected with that account on the target network.\<close>

definition connected_wallet :: wallet where
  "connected_wallet =
     \<lparr>isConnected = True, currentAccount = Some example_account,
      provider = Some WindowEthereum, chainId = Some ''0x13882''\<rparr>"

text \<open>A page whose mint button is enabled and on which no mint is running.\<close>

definition idle_minting :: minting where
  "idle_minting =
     \<lparr>contractAddress = Some ''0x00000000000000000000000000000000000c0de0'', isMinting = False,
      mintButton = Some \<lparr>textContent = Mint_NFT, disabled = False, class_minted = False,
                         class_loading = False\<rparr>\<rparr>"

text \<open>A mint status that says the account has minted token 7.\<close>

definition minted_status :: mint_status where
  "minted_status = \<lparr>has_minted = True, token_id = Some 7, estimated_cost = None\<rparr>"

text \<open>
  An environment in which every step of a mint goes through: the prepare request succeeds,
  the user confirms, the wallet signs and returns a hash, the first status is \<open>confirmed\<close>.
\<close>

definition willing_answers :: mint_answers where
  "willing_answers =
     \<lparr>prepare_answer = Inr \<lparr>success = True, prepare_error = None, transaction = ''0xdata''\<rparr>,
      confirm_answer = True, host_ethereum = True,
      eth_accounts_answer = Inr [example_account],
      sendTransaction_answer = Inr (Some ''0xhash''),
      status_endpoint = (\<lambda>k. StatusData ''confirmed'' (Some 7) None)\<rparr>"

text \<open>The same environment with a user who declines in the confirmation modal.\<close>

definition declining_answers :: mint_answers where
  "declining_answers = willing_answers\<lparr>confirm_answer := False\<rparr>"

text \<open>
  A wallet on another chain, and a provider that does not know the target chain: the switch
  request fails with code 4902 and the add request succeeds. A second provider whose user
  rejects the switch (code 4001).
\<close>

definition unknown_chain_answers :: network_answers where
  "unknown_chain_answers =
     \<lparr>chainId_answer = Inr ''0x1'',
      switch_answer = Inl (Error (Some 4902) ''Unrecognized chain ID''),
      add_answer = Inr ()\<rparr>"

definition rejected_switch_answers :: network_answers where
  "rejected_switch_answers =
     \<lparr>chainId_answer = Inr ''0x1'',
      switch_answer = Inl (Error (Some 4001) ''User rejected the request.''),
      add_answer = Inr ()\<rparr>"

section \<open>Properties of one \<open>checkStatus\<close> invocation and of the chain\<close>

declare checkStatus_chain.simps [simp del]

lemma checkStatus_pending:
  "status_of r = Some ''pending'' \<Longrightarrow>
   checkStatus a r = (a + 1, if a + 1 < maxAttempts then Rearmed
                              else Rejected (Error None ''Transaction timeout''))"
  by (cases r) (auto simp: checkStatus_def checkStatus_try_def Let_def)

lemma checkStatus_confirmed:
  "checkStatus a (StatusData ''confirmed'' tok err) = (a + 1, Succeeded tok)"
  by (simp add: checkStatus_def checkStatus_try_def Let_def)

lemma checkStatus_fetch_failed:
  "checkStatus a (FetchFailed e) = (a + 1, if a + 1 < maxAttempts then Rearmed else Rejected e)"
  by (simp add: checkStatus_def checkStatus_try_def Let_def)

lemma checkStatus_failed:
  "checkStatus a (StatusData ''failed'' tok err) =
     (a + 1, if a + 1 < maxAttempts then Rearmed
             else Rejected (Error None (or_default err ''Transaction failed'')))"
  by (simp add: checkStatus_def checkStatus_try_def Let_def)

lemma checkStatus_counts: "fst (checkStatus a r) = a + 1"
  by (simp add: checkStatus_def Let_def split: try_result.splits)

lemma chain_rearmed:
  "checkStatus a (endpoint (a + 1)) = (a', Rearmed) \<Longrightarrow>
   checkStatus_chain h endpoint aw a =
     (case checkStatus_chain h endpoint False (a + 1) of
        (n, r, fx) \<Rightarrow> (n, r, Fetch status_url # SetTimeout_checkStatus # fx))"
  by (subst checkStatus_chain.simps) (simp add: attempt_effects_def split: prod.splits)

lemma chain_succeeded:
  "checkStatus a (endpoint (a + 1)) = (a', Succeeded tok) \<Longrightarrow>
   checkStatus_chain h endpoint aw a =
     (a', Succeeded tok,
      [Fetch status_url, Toast ''NFT minted successfully!'' ''success'', OnMintSuccess tok h])"
  by (subst checkStatus_chain.simps) (simp add: attempt_effects_def)

lemma chain_rejected:
  "checkStatus a (endpoint (a + 1)) = (a', Rejected e) \<Longrightarrow>
   checkStatus_chain h endpoint aw a =
     (a', Rejected e,
      Fetch status_url #
      (if aw then [ConsoleError ''Transaction confirmation error:'',
                   Toast (''Transaction may have failed: '' @ err_message e) ''error'']
       else [UnhandledRejection e]))"
  by (subst checkStatus_chain.simps) (simp add: attempt_effects_def)

text \<open>A run of \<open>n\<close> pending answers below the ceiling: \<open>n\<close> fetches, \<open>n\<close> timers.\<close>

lemma chain_pending_run:
  "\<lbrakk>\<forall>k. a < k \<and> k \<le> a + n \<longrightarrow> status_of (endpoint k) = Some ''pending''; a + n < maxAttempts\<rbrakk>
   \<Longrightarrow> checkStatus_chain h endpoint aw a =
     (case checkStatus_chain h endpoint (aw \<and> n = 0) (a + n) of
        (m, r, fx) \<Rightarrow> (m, r, concat (replicate n [Fetch status_url, SetTimeout_checkStatus]) @ fx))"
proof (induction n arbitrary: a aw)
  case 0
  then show ?case by (simp split: prod.splits)
next
  case (Suc n)
  have p: "status_of (endpoint (a + 1)) = Some ''pending''" using Suc.prems(1) by simp
  have lt: "a + 1 < maxAttempts" using Suc.prems(2) by simp
  have step: "checkStatus a (endpoint (a + 1)) = (a + 1, Rearmed)"
    using checkStatus_pending[OF p, of a] lt by simp
  have rest: "checkStatus_chain h endpoint False (a + 1) =
     (case checkStatus_chain h endpoint (False \<and> n = 0) (a + 1 + n) of
        (m, r, fx) \<Rightarrow> (m, r, concat (replicate n [Fetch status_url, SetTimeout_checkStatus]) @ fx))"
    using Suc.prems by (intro Suc.IH) auto
  show ?case
    using rest
    by (simp add: chain_rearmed[where endpoint=endpoint and a=a, OF step] case_prod_beta)
qed

lemma count_fetch_pending_run:
  "count_list (concat (replicate n [Fetch status_url, SetTimeout_checkStatus])) (Fetch status_url) = n"
  by (induction n) auto

lemma checkStatus_Rearmed_lt:
  "checkStatus a r = (a', Rearmed) \<Longrightarrow> a + 1 < maxAttempts"
  by (auto simp: checkStatus_def checkStatus_try_def Let_def
        split: try_result.splits status_reply.splits if_splits)

lemma count_attempt_effects:
  "count_list (attempt_effects h r) (Fetch status_url) = 1"
  by (cases r) (simp_all add: attempt_effects_def)

text \<open>
  For every status endpoint the chain ends, in success or in a rejection, after at most
  \<open>maxAttempts\<close> invocations in all, and it fetches once per invocation.
\<close>

lemma chain_fetches_bounded:
  "a < maxAttempts \<Longrightarrow>
   a < fst (checkStatus_chain h endpoint aw a)
   \<and> fst (checkStatus_chain h endpoint aw a) \<le> maxAttempts
   \<and> count_list (snd (snd (checkStatus_chain h endpoint aw a))) (Fetch status_url)
       = fst (checkStatus_chain h endpoint aw a) - a
   \<and> fst (snd (checkStatus_chain h endpoint aw a)) \<noteq> Rearmed"
proof (induction h endpoint aw a rule: checkStatus_chain.induct)
  case (1 txHash endpoint awaited attempts0)
  obtain attempts r where cs: "checkStatus attempts0 (endpoint (attempts0 + 1)) = (attempts, r)"
    by (cases "checkStatus attempts0 (endpoint (attempts0 + 1))")
  have att: "attempts = attempts0 + 1"
    using checkStatus_counts[of attempts0 "endpoint (attempts0 + 1)"] cs by simp
  show ?case
  proof (cases "r = Rearmed")
    case True
    then have lt: "attempts0 + 1 < maxAttempts"
      using cs checkStatus_Rearmed_lt by blast
    have ih: "attempts0 + 1 < fst (checkStatus_chain txHash endpoint False (attempts0 + 1))
       \<and> fst (checkStatus_chain txHash endpoint False (attempts0 + 1)) \<le> maxAttempts
       \<and> count_list (snd (snd (checkStatus_chain txHash endpoint False (attempts0 + 1))))
             (Fetch status_url)
           = fst (checkStatus_chain txHash endpoint False (attempts0 + 1)) - (attempts0 + 1)
       \<and> fst (snd (checkStatus_chain txHash endpoint False (attempts0 + 1))) \<noteq> Rearmed"
      using "1.IH"[OF cs[symmetric] refl True lt] .
    have unf: "checkStatus_chain txHash endpoint awaited attempts0 =
       (case checkStatus_chain txHash endpoint False (attempts0 + 1) of
          (n, r, fx) \<Rightarrow> (n, r, Fetch status_url # SetTimeout_checkStatus # fx))"
      using chain_rearmed[where endpoint=endpoint and a=attempts0] cs True by simp
    show ?thesis
      using ih by (auto simp: unf case_prod_beta)
  next
    case False
    have unf: "checkStatus_chain txHash endpoint awaited attempts0 =
        (attempts, r,
         attempt_effects txHash r @
         (case r of
            Rejected error \<Rightarrow>
              if awaited then
                [ConsoleError ''Transaction confirmation error:'',
                 Toast (''Transaction may have failed: '' @ err_message error) ''error'']
              else [UnhandledRejection error]
          | _ \<Rightarrow> []))"
      using cs False by (subst checkStatus_chain.simps) simp
    show ?thesis
      using "1.prems" False att
      by (auto simp: unf count_attempt_effects split: attempt_end.splits)
  qed
qed

lemma polling_at_most_sixty_fetches:
  "1 \<le> fst (waitForTransactionConfirmation h t endpoint)
   \<and> fst (waitForTransactionConfirmation h t endpoint) \<le> 60
   \<and> count_list (snd (snd (waitForTransactionConfirmation h t endpoint))) (Fetch status_url)
       = fst (waitForTransactionConfirmation h t endpoint)
   \<and> fst (snd (waitForTransactionConfirmation h t endpoint)) \<noteq> Rearmed"
  using chain_fetches_bounded[of 0 h endpoint True]
  by (simp add: waitForTransactionConfirmation_def maxAttempts_def)

section \<open>The polling loop\<close>

text \<open>
  Claim C1. The status endpoint answers \<open>pending\<close> on each of the attempts 1 to 59.
  If the 60th answer is \<open>confirmed\<close>, the polling ends in success: \<open>onMintSuccess\<close> is
  called with the token id of that answer, \<open>attempts\<close> is 60, and the effects are 59
  fetches each followed by a timer, then the 60th fetch and the success path. If the 60th
  answer is \<open>pending\<close> too, the 60th invocation rejects with \<open>Transaction timeout\<close> and arms
  no timer: there are exactly 60 fetches and no 61st. (That invocation was started by a
  timer, so its rejection is unhandled.)
\<close>

theorem polling_sixty_attempts:
  assumes "\<forall>k\<in>{1..59}. status_of (endpoint k) = Some ''pending''"
  shows "(endpoint 60 = StatusData ''confirmed'' tok err \<longrightarrow>
            waitForTransactionConfirmation h t endpoint =
              (60, Succeeded tok,
               concat (replicate 59 [Fetch status_url, SetTimeout_checkStatus]) @
               [Fetch status_url, Toast ''NFT minted successfully!'' ''success'',
                OnMintSuccess tok h])
          \<and> count_list (snd (snd (waitForTransactionConfirmation h t endpoint)))
                (Fetch status_url) = 60)
       \<and> (status_of (endpoint 60) = Some ''pending'' \<longrightarrow>
            waitForTransactionConfirmation h t endpoint =
              (60, Rejected (Error None ''Transaction timeout''),
               concat (replicate 59 [Fetch status_url, SetTimeout_checkStatus]) @
               [Fetch status_url, UnhandledRejection (Error None ''Transaction timeout'')])
          \<and> count_list (snd (snd (waitForTransactionConfirmation h t endpoint)))
                (Fetch status_url) = 60)"
proof -
  have run: "checkStatus_chain h endpoint True 0 =
     (case checkStatus_chain h endpoint False 59 of
        (m, r, fx) \<Rightarrow>
          (m, r, concat (replicate 59 [Fetch status_url, SetTimeout_checkStatus]) @ fx))"
    using chain_pending_run[of 0 59 endpoint h True] assms by (simp add: maxAttempts_def)
  have confirmed: "waitForTransactionConfirmation h t endpoint =
              (60, Succeeded tok,
               concat (replicate 59 [Fetch status_url, SetTimeout_checkStatus]) @
               [Fetch status_url, Toast ''NFT minted successfully!'' ''success'',
                OnMintSuccess tok h])"
    if c: "endpoint 60 = StatusData ''confirmed'' tok err"
  proof -
    have "checkStatus 59 (endpoint (59 + 1)) = (60, Succeeded tok)"
      using checkStatus_confirmed[of 59 tok err] c by simp
    from chain_succeeded[where endpoint=endpoint and a=59, OF this] show ?thesis
      by (simp add: waitForTransactionConfirmation_def run)
  qed
  have timeout: "waitForTransactionConfirmation h t endpoint =
              (60, Rejected (Error None ''Transaction timeout''),
               concat (replicate 59 [Fetch status_url, SetTimeout_checkStatus]) @
               [Fetch status_url, UnhandledRejection (Error None ''Transaction timeout'')])"
    if p: "status_of (endpoint 60) = Some ''pending''"
  proof -
    have "checkStatus 59 (endpoint (59 + 1)) = (60, Rejected (Error None ''Transaction timeout''))"
      using checkStatus_pending[of "endpoint 60" 59] p by (simp add: maxAttempts_def)
    from chain_rejected[where endpoint=endpoint and a=59 and h=h and aw=False, OF this]
    show ?thesis
      by (simp add: waitForTransactionConfirmation_def run)
  qed
  show ?thesis
    using confirmed timeout by (auto simp: count_fetch_pending_run)
qed

text \<open>The two endpoints of the claim: 59 times pending then confirmed, and always pending.\<close>

theorem polling_sixty_attempts_witness:
  "waitForTransactionConfirmation ''0xhash'' example_account
     (\<lambda>k. if k < 60 then StatusData ''pending'' None None
          else StatusData ''confirmed'' (Some 7) None)
   = (60, Succeeded (Some 7),
      concat (replicate 59 [Fetch status_url, SetTimeout_checkStatus]) @
      [Fetch status_url, Toast ''NFT minted successfully!'' ''success'',
       OnMintSuccess (Some 7) ''0xhash''])
   \<and> waitForTransactionConfirmation ''0xhash'' example_account
     (\<lambda>k. StatusData ''pending'' None None)
   = (60, Rejected (Error None ''Transaction timeout''),
      concat (replicate 59 [Fetch status_url, SetTimeout_checkStatus]) @
      [Fetch status_url, UnhandledRejection (Error None ''Transaction timeout'')])"
  using polling_sixty_attempts[of "\<lambda>k. if k < 60 then StatusData ''pending'' None None
          else StatusData ''confirmed'' (Some 7) None" "Some 7" None "''0xhash''" example_account]
    polling_sixty_attempts[of "\<lambda>k. StatusData ''pending'' None None" None None
       "''0xhash''" example_account]
  by simp

text \<open>
  Claim C2, evaluated at a failing input. The first answer of the status endpoint is
  \<open>failed\<close>: the \<open>try\<close> block throws, the \<open>catch\<close> clause of \<open>checkStatus\<close> catches the
  error and, attempts remaining, arms the timer. The polling goes on, and when the second
  answer is \<open>confirmed\<close> the workflow ends in success.
\<close>

theorem failed_status_keeps_polling:
  "checkStatus 0 (StatusData ''failed'' None (Some ''execution reverted'')) = (1, Rearmed)
   \<and> waitForTransactionConfirmation ''0xhash'' example_account
       (\<lambda>k. if k < 2 then StatusData ''failed'' None (Some ''execution reverted'')
            else StatusData ''confirmed'' (Some 7) None)
     = (2, Succeeded (Some 7),
        [Fetch status_url, SetTimeout_checkStatus,
         Fetch status_url, Toast ''NFT minted successfully!'' ''success'',
         OnMintSuccess (Some 7) ''0xhash''])"
proof -
  let ?ep = "\<lambda>k::nat. if k < 2 then StatusData ''failed'' None (Some ''execution reverted'')
            else StatusData ''confirmed'' (Some 7) None"
  have second: "checkStatus_chain ''0xhash'' ?ep False (Suc 0) =
      (2, Succeeded (Some 7),
       [Fetch status_url, Toast ''NFT minted successfully!'' ''success'',
        OnMintSuccess (Some 7) ''0xhash''])"
    using chain_succeeded[where endpoint="?ep" and a="Suc 0" and h="''0xhash''" and aw=False
            and a'=2 and tok="Some 7"]
    by (simp add: checkStatus_confirmed)
  have first: "checkStatus_chain ''0xhash'' ?ep True 0 =
      (2, Succeeded (Some 7),
       [Fetch status_url, SetTimeout_checkStatus,
        Fetch status_url, Toast ''NFT minted successfully!'' ''success'',
        OnMintSuccess (Some 7) ''0xhash''])"
    using chain_rearmed[where endpoint="?ep" and a=0 and h="''0xhash''" and aw=True
            and a'="Suc 0"] second
    by (simp add: checkStatus_failed maxAttempts_def)
  show ?thesis
    using first by (simp add: waitForTransactionConfirmation_def checkStatus_failed maxAttempts_def)
qed

text \<open>
  Claim C3. An invocation whose fetch fails counts as one attempt. While attempts remain
  (\<open>attempts < 60\<close> after the increment) it arms the timer and the chain continues from
  the next attempt; when none remain it rejects with the error of the fetch and the chain
  ends there.
\<close>

theorem fetch_error_consumes_attempt:
  "checkStatus a (FetchFailed e) = (a + 1, if a + 1 < maxAttempts then Rearmed else Rejected e)
   \<and> (endpoint (a + 1) = FetchFailed e \<longrightarrow>
        checkStatus_chain h endpoint aw a =
          (if a + 1 < maxAttempts then
             (case checkStatus_chain h endpoint False (a + 1) of
                (n, r, fx) \<Rightarrow> (n, r, Fetch status_url # SetTimeout_checkStatus # fx))
           else
             (a + 1, Rejected e,
              Fetch status_url #
              (if aw then [ConsoleError ''Transaction confirmation error:'',
                           Toast (''Transaction may have failed: '' @ err_message e) ''error'']
               else [UnhandledRejection e]))))"
proof (intro conjI impI)
  show "checkStatus a (FetchFailed e) = (a + 1, if a + 1 < maxAttempts then Rearmed else Rejected e)"
    by (rule checkStatus_fetch_failed)
next
  assume f: "endpoint (a + 1) = FetchFailed e"
  show "checkStatus_chain h endpoint aw a =
          (if a + 1 < maxAttempts then
             (case checkStatus_chain h endpoint False (a + 1) of
                (n, r, fx) \<Rightarrow> (n, r, Fetch status_url # SetTimeout_checkStatus # fx))
           else
             (a + 1, Rejected e,
              Fetch status_url #
              (if aw then [ConsoleError ''Transaction confirmation error:'',
                           Toast (''Transaction may have failed: '' @ err_message e) ''error'']
               else [UnhandledRejection e])))"
  proof (cases "a + 1 < maxAttempts")
    case True
    then have "checkStatus a (endpoint (a + 1)) = (a + 1, Rearmed)"
      using f by (simp add: checkStatus_fetch_failed)
    from chain_rearmed[where endpoint=endpoint and a=a, OF this] True show ?thesis by simp
  next
    case False
    then have "checkStatus a (endpoint (a + 1)) = (a + 1, Rejected e)"
      using f by (simp add: checkStatus_fetch_failed)
    from chain_rejected[where endpoint=endpoint and a=a, OF this] False show ?thesis by simp
  qed
qed

text \<open>
  A fetch that fails on the 60th attempt ends the chain; one that fails on the first
  attempt does not, and a confirmed second answer ends it in success.
\<close>

theorem fetch_error_consumes_attempt_witness:
  "checkStatus_chain ''0xhash'' (\<lambda>k. FetchFailed (Error None ''Failed to fetch'')) False 59
     = (60, Rejected (Error None ''Failed to fetch''),
        [Fetch status_url, UnhandledRejection (Error None ''Failed to fetch'')])
   \<and> waitForTransactionConfirmation ''0xhash'' example_account
        (\<lambda>k. if k < 2 then FetchFailed (Error None ''Failed to fetch'')
             else StatusData ''confirmed'' (Some 7) None)
     = (2, Succeeded (Some 7),
        [Fetch status_url, SetTimeout_checkStatus,
         Fetch status_url, Toast ''NFT minted successfully!'' ''success'',
         OnMintSuccess (Some 7) ''0xhash''])"
proof -
  let ?ep = "\<lambda>k::nat. if k < 2 then FetchFailed (Error None ''Failed to fetch'')
             else StatusData ''confirmed'' (Some 7) None"
  have second: "checkStatus_chain ''0xhash'' ?ep False (Suc 0) =
      (2, Succeeded (Some 7),
       [Fetch status_url, Toast ''NFT minted successfully!'' ''success'',
        OnMintSuccess (Some 7) ''0xhash''])"
    using chain_succeeded[where endpoint="?ep" and a="Suc 0" and h="''0xhash''" and aw=False
            and a'=2 and tok="Some 7"]
    by (simp add: checkStatus_confirmed)
  show ?thesis
    using fetch_error_consumes_attempt[of 59 "Error None ''Failed to fetch''"
            "\<lambda>k. FetchFailed (Error None ''Failed to fetch'')" "''0xhash''" False]
          fetch_error_consumes_attempt[of 0 "Error None ''Failed to fetch''" "?ep" "''0xhash''" True]
          second
    by (simp add: maxAttempts_def waitForTransactionConfirmation_def)
qed

section \<open>The mint workflow\<close>

lemma canUserMint_example:
  "canUserMint connected_wallet example_account = JBool True"
  by (simp add: canUserMint_def connected_wallet_def example_account_def toLowerCase_def
        isOnCorrectNetwork_def targetNetwork_chainId_def)

lemma connected_wallet_connected: "isWalletConnected connected_wallet"
  by (simp add: isWalletConnected_def connected_wallet_def)

lemma example_account_nonempty: "example_account \<noteq> []"
  by (simp add: example_account_def)

lemma checkMintStatus_minted_example:
  "fst (checkMintStatus (Inr minted_status) connected_wallet example_account idle_minting) =
     idle_minting\<lparr>mintButton := Some \<lparr>textContent = Already_Minted, disabled = True,
                                        class_minted = True, class_loading = False\<rparr>\<rparr>"
  by (simp add: checkMintStatus_def falsy_def example_account_nonempty updateMintButton_def
        minted_status_def idle_minting_def)

lemma waitFor_confirmed_first:
  "waitForTransactionConfirmation h t (\<lambda>k. StatusData ''confirmed'' tok err) =
     (1, Succeeded tok,
      [Fetch status_url, Toast ''NFT minted successfully!'' ''success'', OnMintSuccess tok h])"
  using chain_succeeded[where endpoint="\<lambda>k. StatusData ''confirmed'' tok err" and a=0 and h=h
          and aw=True and a'=1 and tok=tok]
  by (simp add: waitForTransactionConfirmation_def checkStatus_confirmed)

lemma mintNFT_ignores_button:
  "snd (mintNFT ans w traderAddress (m\<lparr>mintButton := b\<rparr>)) = snd (mintNFT ans w traderAddress m)"
  by (auto simp: mintNFT_def mintNFT_try_def setMintingState_def
        split: option.splits sum.splits prod.splits attempt_end.splits)

lemma updateMintButton_writes_button_only:
  "\<exists>b. updateMintButton w traderAddress st m = m\<lparr>mintButton := b\<rparr>"
proof (cases "mintButton m")
  case None
  then have "updateMintButton w traderAddress st m = m\<lparr>mintButton := None\<rparr>"
    by (simp add: updateMintButton_def)
  then show ?thesis by blast
next
  case (Some b)
  then show ?thesis
    by (simp add: updateMintButton_def Let_def) blast
qed

text \<open>
  Claim C4. In every state in which \<open>isMinting\<close> is true, \<open>mintNFT\<close> returns at its first
  statement: the state is unchanged and there is no effect at all (no prepare request, no
  confirmation modal, no request to the wallet, no toast).
\<close>

theorem second_mint_rejected:
  "isMinting m \<Longrightarrow> mintNFT ans w traderAddress m = (m, [])"
  by (simp add: mintNFT_def)

text \<open>A second call while a mint is running, in an environment where a mint would go through.\<close>

theorem second_mint_rejected_witness:
  "mintNFT willing_answers connected_wallet example_account (idle_minting\<lparr>isMinting := True\<rparr>)
     = (idle_minting\<lparr>isMinting := True\<rparr>, [])"
  using second_mint_rejected[of "idle_minting\<lparr>isMinting := True\<rparr>" willing_answers
          connected_wallet example_account]
  by simp

text \<open>
  Claim C5, as amended. When the fetched mint status has \<open>has_minted\<close>, \<open>updateMintButton\<close>
  disables the mint button and captions it as already minted, whatever the wallet state
  and the address; nothing else records the status. \<open>mintNFT\<close> never consults it: its
  effects are the same with and without the button update, so only its three guards
  (\<open>isMinting\<close>, \<open>isWalletConnected\<close>, \<open>canUserMint\<close>) can stop a call.
\<close>

theorem mint_status_gates_button_only:
  "(has_minted st \<longrightarrow>
      mintButton (updateMintButton w traderAddress st m) =
        map_option (\<lambda>b. b\<lparr>textContent := Already_Minted, disabled := True, class_minted := True\<rparr>)
          (mintButton m))
   \<and> snd (mintNFT ans w' traderAddress' (updateMintButton w traderAddress st m))
       = snd (mintNFT ans w' traderAddress' m)"
proof (intro conjI impI)
  assume "has_minted st"
  then show "mintButton (updateMintButton w traderAddress st m) =
        map_option (\<lambda>b. b\<lparr>textContent := Already_Minted, disabled := True, class_minted := True\<rparr>)
          (mintButton m)"
    by (simp add: updateMintButton_def split: option.splits)
next
  obtain b where "updateMintButton w traderAddress st m = m\<lparr>mintButton := b\<rparr>"
    using updateMintButton_writes_button_only by blast
  then show "snd (mintNFT ans w' traderAddress' (updateMintButton w traderAddress st m))
       = snd (mintNFT ans w' traderAddress' m)"
    by (simp add: mintNFT_ignores_button)
qed

text \<open>The button of the example page after a status that says the account has minted.\<close>

theorem mint_status_gates_button_only_witness:
  "mintButton (updateMintButton connected_wallet example_account minted_status idle_minting) =
     Some \<lparr>textContent = Already_Minted, disabled = True, class_minted = True,
           class_loading = False\<rparr>"
  using mint_status_gates_button_only[of minted_status connected_wallet example_account
          idle_minting willing_answers connected_wallet example_account]
  by (simp add: minted_status_def idle_minting_def)

text \<open>
  Claim C5 as stated fails: the status fetched last for the account says it has minted and
  the button is disabled, yet a call of \<open>mintNFT\<close> for that account asks the wallet to sign
  and send the transaction.
\<close>

theorem minted_account_mint_counterexample:
  "has_minted minted_status
   \<and> map_option disabled
        (mintButton (fst (checkMintStatus (Inr minted_status) connected_wallet example_account
                            idle_minting))) = Some True
   \<and> snd (mintNFT willing_answers connected_wallet example_account
             (fst (checkMintStatus (Inr minted_status) connected_wallet example_account
                     idle_minting)))
     = [Fetch prepare_url, ShowMintConfirmation,
        Request ''eth_accounts'', Request ''eth_sendTransaction'',
        Toast ''Transaction submitted! Waiting for confirmation...'' ''info'',
        Fetch status_url, Toast ''NFT minted successfully!'' ''success'',
        OnMintSuccess (Some 7) ''0xhash'']"
  unfolding checkMintStatus_minted_example
  by (simp add: minted_status_def idle_minting_def
        mintNFT_def connected_wallet_connected canUserMint_example
        mintNFT_try_def willing_answers_def setMintingState_def executeTransaction_def
        example_account_nonempty waitFor_confirmed_first)

text \<open>
  Claim C6. When the prepare request has succeeded and the user declines in the
  confirmation modal, \<open>mintNFT\<close> ends with \<open>isMinting\<close> false, its only effects are the
  prepare request and the modal (no request to the wallet, no error toast), and the
  contract address is untouched. The button keeps what \<open>setMintingState(true)\<close> wrote to
  its caption and its \<open>disabled\<close> flag; only the class \<open>loading\<close> is removed.
\<close>

theorem decline_returns_to_idle:
  assumes "\<not> isMinting m" "isWalletConnected w" "truthy (canUserMint w traderAddress)"
    "prepare_answer ans = Inr data" "success data" "\<not> confirm_answer ans"
  shows "snd (mintNFT ans w traderAddress m) = [Fetch prepare_url, ShowMintConfirmation]
       \<and> Request ''eth_sendTransaction'' \<notin> set (snd (mintNFT ans w traderAddress m))
       \<and> isMinting (fst (mintNFT ans w traderAddress m)) = False
       \<and> contractAddress (fst (mintNFT ans w traderAddress m)) = contractAddress m
       \<and> mintButton (fst (mintNFT ans w traderAddress m)) =
            map_option (\<lambda>b. b\<lparr>textContent := Minting, disabled := True, class_loading := False\<rparr>)
              (mintButton m)"
  using assms
  by (auto simp: mintNFT_def mintNFT_try_def setMintingState_def split: option.splits)

text \<open>The example page with a user who declines.\<close>

theorem decline_returns_to_idle_witness:
  "snd (mintNFT declining_answers connected_wallet example_account idle_minting)
     = [Fetch prepare_url, ShowMintConfirmation]
   \<and> isMinting (fst (mintNFT declining_answers connected_wallet example_account idle_minting))
     = False"
  using decline_returns_to_idle[of idle_minting connected_wallet example_account
          declining_answers "\<lparr>success = True, prepare_error = None, transaction = ''0xdata''\<rparr>"]
  by (simp add: idle_minting_def connected_wallet_connected canUserMint_example
        declining_answers_def willing_answers_def)

section \<open>The wallet session\<close>

lemma provider_step: "provider w = None \<Longrightarrow> provider (session_step ev w) = None"
  by (cases ev)
     (auto simp: connectWallet_def connect_catch_def provider_request_def
        handleAccountsChanged_def disconnectWallet_def handleChainChanged_def
        handleDisconnect_def Let_def split: list.splits)

lemma provider_run: "provider w = None \<Longrightarrow> provider (session_run evs w) = None"
  by (induction evs arbitrary: w) (auto simp: provider_step)

lemma connectWallet_null_provider:
  "provider w = None \<Longrightarrow>
   connectWallet ans w =
     (False, w,
      if window_ethereum ans then
        [ConsoleError ''Error connecting wallet:'',
         Toast (''Connection failed: '' @ err_message TypeError_null) ''error'']
      else
        [Toast ''MetaMask is not installed. Please install MetaMask to continue.'' ''error'',
         WindowOpen ''https://metamask.io/download.html''])"
  by (simp add: connectWallet_def connect_catch_def provider_request_def parseWalletError_def
        TypeError_null_def)

text \<open>
  Claim C7. The current account is what the provider delivered as \<open>accounts[0]\<close>, an
  address, so when it is set it is not the empty string. For such a wallet \<open>canUserMint\<close>
  returns \<open>true\<close> exactly when the wallet is connected, the current account equals the
  trader address up to case, and the chain id is the target chain's. Its result is truthy
  only when it is \<open>true\<close>. When the wallet is not connected it returns \<open>false\<close>, whatever
  the other fields hold.
\<close>

theorem canUserMint_true_iff:
  "(currentAccount w \<noteq> Some [] \<longrightarrow>
      (canUserMint w traderAddress = JBool True) =
        (isConnected w
         \<and> (\<exists>a. currentAccount w = Some a \<and> toLowerCase a = toLowerCase traderAddress)
         \<and> chainId w = Some targetNetwork_chainId))
   \<and> truthy (canUserMint w traderAddress) = (canUserMint w traderAddress = JBool True)
   \<and> (\<not> isConnected w \<longrightarrow> canUserMint w traderAddress = JBool False)"
  by (auto simp: canUserMint_def isOnCorrectNetwork_def split: option.splits)

text \<open>
  A wallet that is not connected; an account that differs from the trader address in case
  only; a wallet on another chain.
\<close>

theorem canUserMint_true_iff_witness:
  "canUserMint (connected_wallet\<lparr>isConnected := False\<rparr>) example_account = JBool False
   \<and> canUserMint (connected_wallet\<lparr>currentAccount := Some ''0xABCDEF''\<rparr>) ''0xabcdef'' = JBool True
   \<and> canUserMint (connected_wallet\<lparr>chainId := Some ''0x1''\<rparr>) example_account \<noteq> JBool True"
  using canUserMint_true_iff[of "connected_wallet\<lparr>isConnected := False\<rparr>" example_account]
    canUserMint_true_iff[of "connected_wallet\<lparr>currentAccount := Some ''0xABCDEF''\<rparr>" "''0xabcdef''"]
    canUserMint_true_iff[of "connected_wallet\<lparr>chainId := Some ''0x1''\<rparr>" example_account]
  by (simp add: connected_wallet_def example_account_def targetNetwork_chainId_def
        toLowerCase_def toLowerCase_char_def)

text \<open>
  Claim C8. The stored provider exists, the current chain is not the target chain, and the
  switch request fails. With error code 4902 \<open>ensureCorrectNetwork\<close> issues exactly one
  add-network request and no second switch request, and returns whether the add request
  succeeded. With any other error it returns \<open>false\<close>, shows the error toast, and issues
  no add-network request.
\<close>

theorem unrecognized_chain_adds_network:
  assumes "provider w = Some p" "chainId_answer ans = Inr c" "c \<noteq> targetNetwork_chainId"
    "switch_answer ans = Inl e"
  shows "(if err_code e = Some 4902 then
            count_list (snd (ensureCorrectNetwork ans w)) (Request ''wallet_addEthereumChain'') = 1
            \<and> count_list (snd (ensureCorrectNetwork ans w)) (Request ''wallet_switchEthereumChain'') = 1
            \<and> fst (ensureCorrectNetwork ans w) = Inr (\<not> isl (add_answer ans))
          else
            fst (ensureCorrectNetwork ans w) = Inr False
            \<and> snd (ensureCorrectNetwork ans w) =
                [Request ''eth_chainId'', Request ''wallet_switchEthereumChain'',
                 ConsoleError ''Error switching network:'',
                 Toast ''Please switch to Polygon Amoy testnet manually.'' ''error'']
            \<and> count_list (snd (ensureCorrectNetwork ans w)) (Request ''wallet_addEthereumChain'') = 0)"
  using assms by (auto simp: ensureCorrectNetwork_def split: sum.splits)

text \<open>A provider that does not know the target chain, and a user who rejects the switch.\<close>

theorem unrecognized_chain_adds_network_witness:
  "snd (ensureCorrectNetwork unknown_chain_answers connected_wallet) =
     [Request ''eth_chainId'', Request ''wallet_switchEthereumChain'',
      Request ''wallet_addEthereumChain'']
   \<and> fst (ensureCorrectNetwork unknown_chain_answers connected_wallet) = Inr True
   \<and> fst (ensureCorrectNetwork rejected_switch_answers connected_wallet) = Inr False
   \<and> count_list (snd (ensureCorrectNetwork rejected_switch_answers connected_wallet))
        (Request ''wallet_addEthereumChain'') = 0"
  using unrecognized_chain_adds_network[of connected_wallet WindowEthereum unknown_chain_answers
          "''0x1''" "Error (Some 4902) ''Unrecognized chain ID''"]
    unrecognized_chain_adds_network[of connected_wallet WindowEthereum rejected_switch_answers
          "''0x1''" "Error (Some 4001) ''User rejected the request.''"]
  by (simp add: connected_wallet_def unknown_chain_answers_def rejected_switch_answers_def
        targetNetwork_chainId_def ensureCorrectNetwork_def)

text \<open>
  Claim C10. After \<open>disconnectWallet\<close> the stored provider is \<open>null\<close> and no later call or
  provider event of the session sets it again. Every later \<open>connectWallet\<close> therefore
  returns \<open>false\<close> and changes nothing: when the host has a provider, the request on the
  stored \<open>null\<close> throws and the error toast \<open>Connection failed\<close> is shown, with no request
  reaching the wallet; when the host has none, the \<open>MetaMask is not installed\<close> toast is
  shown.
\<close>

theorem connect_after_disconnect_fails:
  "provider (session_run evs (fst (disconnectWallet w))) = None
   \<and> connectWallet ans (session_run evs (fst (disconnectWallet w))) =
     (False, session_run evs (fst (disconnectWallet w)),
      if window_ethereum ans then
        [ConsoleError ''Error connecting wallet:'',
         Toast (''Connection failed: '' @ err_message TypeError_null) ''error'']
      else
        [Toast ''MetaMask is not installed. Please install MetaMask to continue.'' ''error'',
         WindowOpen ''https://metamask.io/download.html''])"
proof -
  have "provider (fst (disconnectWallet w)) = None"
    by (simp add: disconnectWallet_def)
  then have none: "provider (session_run evs (fst (disconnectWallet w))) = None"
    by (rule provider_run)
  show ?thesis
    using none connectWallet_null_provider[OF none, of ans] by simp
qed

section \<open>Address formatting\<close>

lemma slice_last_rev: "slice_last n s = rev (take n (rev s))"
  by (simp add: slice_last_def take_rev)

text \<open>
  Claim C9, as amended. \<open>MandalaApp.formatAddress\<close> returns \<open>null\<close> for \<open>null\<close>, a string
  shorter than 10 characters unchanged, and otherwise the first 6 characters, three dots
  and the last 4 characters; the two examples hold. \<open>WalletConnection.formatAddress\<close> has
  no length test: it returns the empty string for \<open>null\<close> and for the empty string, and
  for every other string the first 6 characters (or all of them), three dots and the last
  4 characters (or all of them).
\<close>

theorem formatAddress_two_versions:
  "MandalaApp_formatAddress None = None
   \<and> MandalaApp_formatAddress (Some s) =
       (if length s < 10 then Some s else Some (take 6 s @ ''...'' @ rev (take 4 (rev s))))
   \<and> MandalaApp_formatAddress (Some ''0x1234567890abcdef1234567890abcdef12345678'')
       = Some ''0x1234...5678''
   \<and> MandalaApp_formatAddress (Some ''0x1'') = Some ''0x1''
   \<and> WalletConnection_formatAddress None = []
   \<and> WalletConnection_formatAddress (Some s) =
       (if s = [] then [] else take 6 s @ ''...'' @ rev (take 4 (rev s)))"
  by (auto simp: MandalaApp_formatAddress_def WalletConnection_formatAddress_def falsy_def
        slice_first_def slice_last_rev)

text \<open>
  Claim C9 as stated fails for \<open>WalletConnection.formatAddress\<close> on a string shorter than
  10 characters: it is not returned unchanged.
\<close>

theorem formatAddress_short_counterexample:
  "WalletConnection_formatAddress (Some ''0x1'') = ''0x1...0x1''
   \<and> WalletConnection_formatAddress (Some ''0x1'') \<noteq> ''0x1''"
  by (simp add: WalletConnection_formatAddress_def falsy_def slice_first_def slice_last_def)

end
